theory Spec2Isabelle
  imports Complex_Main "HOL-Library.Log_Nat"
begin

section \<open>Python values at the HTTP boundary\<close>

text \<open>
  The handlers of \<^verbatim>\<open>api/api_main.py\<close> work on what \<^verbatim>\<open>request.get_json()\<close> returns:
  any JSON value, parsed by Python's \<^verbatim>\<open>json\<close> module. A Python \<^verbatim>\<open>str\<close> is modelled by the
  bytes of its UTF-8 encoding (equality, emptiness and substring tests agree with the
  tests on code points). A \<^verbatim>\<open>float\<close> is an IEEE double: a finite value is the number it
  denotes, and minus zero, the infinities and NaN (which \<^verbatim>\<open>json.loads\<close> accepts as
  \<^verbatim>\<open>NaN\<close>, \<^verbatim>\<open>Infinity\<close>, \<^verbatim>\<open>-Infinity\<close>) are values of their own. A \<^verbatim>\<open>dict\<close> is an
  association list read with \<open>map_of\<close>.
\<close>

datatype pyfloat = Fin real | NegZero | PosInf | NegInf | NaN

datatype pyval =
    PNone
  | PBool bool
  | PInt int
  | PFloat pyfloat
  | PStr string
  | PList "pyval list"
  | PDict "(string \<times> pyval) list"

datatype exn =
    TypeError
  | ValueError
  | OverflowError
  | KeyError
  | AttributeError
  | HTTPException nat
  | CoreError string

text \<open>
  Control flow of a handler body: an exception travels to the enclosing \<^verbatim>\<open>except\<close>,
  a \<^verbatim>\<open>return\<close> leaves the handler with a response, anything else falls through to the
  next statement.
\<close>

record response =
  status :: nat
  body :: pyval

datatype 'a step = Raise exn | Return response | Next 'a

definition bindS :: "'a step \<Rightarrow> ('a \<Rightarrow> 'b step) \<Rightarrow> 'b step" where
  "bindS m f = (case m of Raise e \<Rightarrow> Raise e | Return r \<Rightarrow> Return r | Next x \<Rightarrow> f x)"

definition bindE :: "exn + 'a \<Rightarrow> ('a \<Rightarrow> exn + 'b) \<Rightarrow> exn + 'b" where
  "bindE m f = (case m of Inl e \<Rightarrow> Inl e | Inr x \<Rightarrow> f x)"

definition lift :: "exn + 'a \<Rightarrow> 'a step" where
  "lift m = (case m of Inl e \<Rightarrow> Raise e | Inr x \<Rightarrow> Next x)"

fun mapE :: "('a \<Rightarrow> exn + 'b) \<Rightarrow> 'a list \<Rightarrow> exn + 'b list" where
  "mapE f [] = Inr []"
| "mapE f (x # xs) =
     (case f x of Inl e \<Rightarrow> Inl e
      | Inr y \<Rightarrow> (case mapE f xs of Inl e \<Rightarrow> Inl e | Inr ys \<Rightarrow> Inr (y # ys)))"

subsection \<open>Strings of the source\<close>

definition utf8 :: "nat list \<Rightarrow> string" where
  "utf8 bs = map char_of bs"

definition risk_low :: string where
  "risk_low = utf8 [0xE4, 0xBD, 0x8E]"

definition risk_mid_low :: string where
  "risk_mid_low = utf8 [0xE4, 0xB8, 0xAD, 0xE4, 0xBD, 0x8E]"

definition risk_mid :: string where
  "risk_mid = utf8 [0xE4, 0xB8, 0xAD]"

definition risk_mid_high :: string where
  "risk_mid_high = utf8 [0xE4, 0xB8, 0xAD, 0xE9, 0xAB, 0x98]"

definition risk_high :: string where
  "risk_high = utf8 [0xE9, 0xAB, 0x98]"

definition valid_risk_levels :: "string list" where
  "valid_risk_levels = [risk_low, risk_mid_low, risk_mid, risk_mid_high, risk_high]"

definition urban_employee :: string where
  "urban_employee = utf8 [0xE5, 0x9F, 0x8E, 0xE9, 0x95, 0x87, 0xE8, 0x81, 0x8C, 0xE5, 0xB7, 0xA5]"

definition nationwide :: string where
  "nationwide = utf8 [0xE5, 0x85, 0xA8, 0xE5, 0x9B, 0xBD]"

definition unknown_str :: string where
  "unknown_str = utf8 [0xE6, 0x9C, 0xAA, 0xE7, 0x9F, 0xA5]"

definition msg_json_required :: string where
  "msg_json_required = utf8 [0xE8, 0xAF, 0xB7, 0xE6, 0xB1, 0x82, 0xE4, 0xBD, 0x93, 0xE5, 0xBF,
     0x85, 0xE9, 0xA1, 0xBB, 0xE4, 0xB8, 0xBA, 0x4A, 0x53, 0x4F, 0x4E, 0xE6, 0xA0, 0xBC, 0xE5,
     0xBC, 0x8F]"

definition msg_missing_fields :: string where
  "msg_missing_fields = utf8 [0xE7, 0xBC, 0xBA, 0xE5, 0xB0, 0x91, 0xE5, 0xBF, 0x85, 0xE9, 0x9C,
     0x80, 0xE5, 0xAD, 0x97, 0xE6, 0xAE, 0xB5, 0x3A, 0x20]"

definition msg_age_range :: string where
  "msg_age_range = utf8 [0xE5, 0xB9, 0xB4, 0xE9, 0xBE, 0x84, 0xE5, 0xBF, 0x85, 0xE9, 0xA1, 0xBB,
     0xE5, 0x9C, 0xA8, 0x30, 0x2D, 0x31, 0x32, 0x30, 0xE5, 0xB2, 0x81, 0xE4, 0xB9, 0x8B, 0xE9,
     0x97, 0xB4]"

definition msg_income :: string where
  "msg_income = utf8 [0xE5, 0xB9, 0xB4, 0xE6, 0x94, 0xB6, 0xE5, 0x85, 0xA5, 0xE5, 0xBF, 0x85,
     0xE9, 0xA1, 0xBB, 0xE4, 0xB8, 0xBA, 0xE9, 0x9D, 0x9E, 0xE8, 0xB4, 0x9F, 0xE6, 0x95, 0xB0]"

definition msg_risk :: string where
  "msg_risk = utf8 [0xE9, 0xA3, 0x8E, 0xE9, 0x99, 0xA9, 0xE5, 0x81, 0x8F, 0xE5, 0xA5, 0xBD, 0xE5,
     0xBF, 0x85, 0xE9, 0xA1, 0xBB, 0xE6, 0x98, 0xAF, 0x3A, 0x20]"

definition msg_internal :: string where
  "msg_internal = utf8 [0xE6, 0x9C, 0x8D, 0xE5, 0x8A, 0xA1, 0xE5, 0x99, 0xA8, 0xE5, 0x86, 0x85,
     0xE9, 0x83, 0xA8, 0xE9, 0x94, 0x99, 0xE8, 0xAF, 0xAF]"

definition msg_not_initialized :: string where
  "msg_not_initialized = utf8 [0xE7, 0xB3, 0xBB, 0xE7, 0xBB, 0x9F, 0xE6, 0x9C, 0xAA, 0xE5, 0x88,
     0x9D, 0xE5, 0xA7, 0x8B, 0xE5, 0x8C, 0x96]"

definition msg_product_not_found :: string where
  "msg_product_not_found = utf8 [0xE6, 0x9C, 0xAA, 0xE6, 0x89, 0xBE, 0xE5, 0x88, 0xB0, 0xE4, 0xBA,
     0xA7, 0xE5, 0x93, 0x81, 0x49, 0x44, 0x3A, 0x20]"


fun join :: "string \<Rightarrow> string list \<Rightarrow> string" where
  "join sep [] = []"
| "join sep [x] = x"
| "join sep (x # y # ys) = x @ sep @ join sep (y # ys)"

subsection \<open>Built-in operations on values\<close>

text \<open>Truth value of an object, as \<^verbatim>\<open>not data\<close> and \<^verbatim>\<open>if product_details:\<close> test it.\<close>

fun truthy :: "pyval \<Rightarrow> bool" where
  "truthy PNone = False"
| "truthy (PBool b) = b"
| "truthy (PInt n) = (n \<noteq> 0)"
| "truthy (PFloat (Fin x)) = (x \<noteq> 0)"
| "truthy (PFloat NegZero) = False"
| "truthy (PFloat f) = True"
| "truthy (PStr s) = (s \<noteq> [])"
| "truthy (PList xs) = (xs \<noteq> [])"
| "truthy (PDict kvs) = (kvs \<noteq> [])"

fun is_substring :: "string \<Rightarrow> string \<Rightarrow> bool" where
  "is_substring p [] = (p = [])"
| "is_substring p (c # cs) = (take (length p) (c # cs) = p \<or> is_substring p cs)"

text \<open>
  \<^verbatim>\<open>field in data\<close> for a string \<open>field\<close>: key membership for a dict, element
  membership for a list (a string equals only a string), substring for a string; any
  other object is not iterable.
\<close>

fun py_contains :: "pyval \<Rightarrow> string \<Rightarrow> exn + bool" where
  "py_contains (PDict kvs) k = Inr (map_of kvs k \<noteq> None)"
| "py_contains (PList xs) k = Inr (PStr k \<in> set xs)"
| "py_contains (PStr s) k = Inr (is_substring k s)"
| "py_contains v k = Inl TypeError"

text \<open>\<^verbatim>\<open>data[field]\<close> for a string \<open>field\<close>.\<close>

fun py_getitem :: "pyval \<Rightarrow> string \<Rightarrow> exn + pyval" where
  "py_getitem (PDict kvs) k = (case map_of kvs k of None \<Rightarrow> Inl KeyError | Some v \<Rightarrow> Inr v)"
| "py_getitem v k = Inl TypeError"

text \<open>\<^verbatim>\<open>obj.get(key, default)\<close>: only a dict has the method.\<close>

fun py_get :: "pyval \<Rightarrow> string \<Rightarrow> pyval \<Rightarrow> exn + pyval" where
  "py_get (PDict kvs) k d = Inr (case map_of kvs k of None \<Rightarrow> d | Some v \<Rightarrow> v)"
| "py_get v k d = Inl AttributeError"

text \<open>\<^verbatim>\<open>isinstance(x, (int, float))\<close>: \<^verbatim>\<open>bool\<close> is a subclass of \<^verbatim>\<open>int\<close>.\<close>

datatype pynum = NInt int | NFloat pyfloat

fun as_num :: "pyval \<Rightarrow> pynum option" where
  "as_num (PBool b) = Some (NInt (if b then 1 else 0))"
| "as_num (PInt n) = Some (NInt n)"
| "as_num (PFloat f) = Some (NFloat f)"
| "as_num v = None"

text \<open>\<^verbatim>\<open>x < k\<close> and \<^verbatim>\<open>x > k\<close> for a number \<open>x\<close> and an int literal \<open>k\<close>; every
  comparison with NaN is false.\<close>

fun num_lt :: "pynum \<Rightarrow> int \<Rightarrow> bool" where
  "num_lt (NInt n) k = (n < k)"
| "num_lt (NFloat (Fin x)) k = (x < of_int k)"
| "num_lt (NFloat NegZero) k = (0 < k)"
| "num_lt (NFloat PosInf) k = False"
| "num_lt (NFloat NegInf) k = True"
| "num_lt (NFloat NaN) k = False"

fun num_gt :: "pynum \<Rightarrow> int \<Rightarrow> bool" where
  "num_gt (NInt n) k = (n > k)"
| "num_gt (NFloat (Fin x)) k = (x > of_int k)"
| "num_gt (NFloat NegZero) k = (0 > k)"
| "num_gt (NFloat PosInf) k = True"
| "num_gt (NFloat NegInf) k = False"
| "num_gt (NFloat NaN) k = False"

text \<open>\<^verbatim>\<open>int(x)\<close>: truncation towards zero; an infinity overflows, NaN is a ValueError.\<close>

fun py_int :: "pynum \<Rightarrow> exn + int" where
  "py_int (NInt n) = Inr n"
| "py_int (NFloat (Fin x)) = Inr (if 0 \<le> x then \<lfloor>x\<rfloor> else \<lceil>x\<rceil>)"
| "py_int (NFloat NegZero) = Inr 0"
| "py_int (NFloat PosInf) = Inl OverflowError"
| "py_int (NFloat NegInf) = Inl OverflowError"
| "py_int (NFloat NaN) = Inl ValueError"

text \<open>
  \<^verbatim>\<open>float(n)\<close> for an int: exact below \<open>2^53\<close>, else rounded to 53 significant bits,
  ties to even; \<^verbatim>\<open>OverflowError\<close> when the rounded value reaches \<open>2^1024\<close>.
\<close>

definition float_of_int :: "int \<Rightarrow> exn + pyfloat" where
  "float_of_int n =
     (let a = \<bar>n\<bar> in
      if a < 2 ^ 53 then Inr (Fin (of_int n))
      else
        let e = nat (bitlen a - 53);
            q = a div 2 ^ e;
            r = a mod 2 ^ e;
            q' = (if 2 * r > 2 ^ e \<or> (2 * r = 2 ^ e \<and> odd q) then q + 1 else q);
            m = q' * 2 ^ e
        in if m \<ge> 2 ^ 1024 then Inl OverflowError
           else Inr (Fin (of_int (if n < 0 then - m else m))))"

fun py_float :: "pynum \<Rightarrow> exn + pyfloat" where
  "py_float (NInt n) = float_of_int n"
| "py_float (NFloat f) = Inr f"

text \<open>
  \<^verbatim>\<open>x * 0.5\<close> on a double. Halving is exact unless the result falls below the
  smallest subnormal step \<open>2^-1074\<close>: an odd multiple of \<open>2^-1074\<close> is halved to a tie,
  which rounds to the even neighbour.
\<close>

definition half_double :: "real \<Rightarrow> pyfloat" where
  "half_double x =
     (let h = x * 2 ^ 1074 / 2; k = \<lfloor>h\<rfloor> in
      if of_int k = h then Fin (x / 2)
      else
        let k' = (if even k then k else k + 1) in
        if k' = 0 \<and> x < 0 then NegZero else Fin (of_int k' / 2 ^ 1074))"

fun fmul_half :: "pyfloat \<Rightarrow> pyfloat" where
  "fmul_half (Fin x) = half_double x"
| "fmul_half f = f"

fun mul_half :: "pynum \<Rightarrow> exn + pyfloat" where
  "mul_half (NInt n) = bindE (float_of_int n) (\<lambda>f. Inr (fmul_half f))"
| "mul_half (NFloat f) = Inr (fmul_half f)"


text \<open>\<^verbatim>\<open>len(x)\<close> and the elements a \<^verbatim>\<open>for\<close> loop visits. A string is visited code point by
  code point: a lead byte with the continuation bytes (\<open>0x80\<close> to \<open>0xBF\<close>) after it.\<close>

definition is_cont :: "char \<Rightarrow> bool" where
  "is_cont c = (128 \<le> (of_char c :: nat) \<and> (of_char c :: nat) < 192)"

function utf8_chars :: "string \<Rightarrow> string list" where
  "utf8_chars [] = []"
| "utf8_chars (c # cs) = (c # takeWhile is_cont cs) # utf8_chars (dropWhile is_cont cs)"
  by pat_completeness auto
termination
  by (relation "measure length") (auto simp: length_dropWhile_le less_Suc_eq_le)

fun dict_keys :: "(string \<times> pyval) list \<Rightarrow> string list" where
  "dict_keys kvs = remdups (map fst kvs)"

fun py_iter :: "pyval \<Rightarrow> exn + pyval list" where
  "py_iter (PList xs) = Inr xs"
| "py_iter (PDict kvs) = Inr (map PStr (dict_keys kvs))"
| "py_iter (PStr s) = Inr (map PStr (utf8_chars s))"
| "py_iter v = Inl TypeError"

fun py_len :: "pyval \<Rightarrow> exn + nat" where
  "py_len (PList xs) = Inr (length xs)"
| "py_len (PDict kvs) = Inr (length (dict_keys kvs))"
| "py_len (PStr s) = Inr (length (utf8_chars s))"
| "py_len v = Inl TypeError"

text \<open>\<^verbatim>\<open>d[k] = v\<close> on a dict: the value is replaced where the key is, else appended.\<close>

fun dict_set :: "(string \<times> pyval) list \<Rightarrow> string \<Rightarrow> pyval \<Rightarrow> (string \<times> pyval) list" where
  "dict_set [] k v = [(k, v)]"
| "dict_set (p # ps) k v = (if fst p = k then (k, v) # ps else p # dict_set ps k v)"

text \<open>
  Text of a value inside an f-string. Decimal integers, booleans, \<^verbatim>\<open>None\<close> and
  strings are written out; the shortest-repr text of a float and the repr of a
  container are library routines, taken from the environment \<open>env\<close>, as are the MD5
  digest, the text of an exception, the readings of the clock and \<^verbatim>\<open>int()\<close> of a string.
\<close>

record env =
  fmt :: "pyval \<Rightarrow> string"
  md5_hexdigest :: "string \<Rightarrow> string"
  exn_str :: "exn \<Rightarrow> string"
  clock :: "nat \<Rightarrow> string"
  int_of_text :: "string \<Rightarrow> exn + int"

definition digit_char :: "nat \<Rightarrow> char" where
  "digit_char d = char_of (48 + d)"

fun show_nat :: "nat \<Rightarrow> string" where
  "show_nat n = (if n < 10 then [digit_char n] else show_nat (n div 10) @ [digit_char (n mod 10)])"

declare show_nat.simps [simp del]

definition show_int :: "int \<Rightarrow> string" where
  "show_int i = (if i < 0 then CHR ''-'' # show_nat (nat (- i)) else show_nat (nat i))"

fun py_str :: "env \<Rightarrow> pyval \<Rightarrow> string" where
  "py_str env PNone = ''None''"
| "py_str env (PBool b) = (if b then ''True'' else ''False'')"
| "py_str env (PInt n) = show_int n"
| "py_str env (PStr s) = s"
| "py_str env v = fmt env v"


section \<open>The recommendation core as the handlers see it\<close>

text \<open>
  \<^verbatim>\<open>data_processor.PensionProductAnalyzer\<close> and \<^verbatim>\<open>recommender.PensionProductRecommender\<close>
  are imported by \<^verbatim>\<open>api_main.py\<close>. The handlers are modelled over any implementation of
  the methods they call: a method takes the object's state, may raise, and returns the
  state it leaves behind. Every call a handler makes is recorded in \<open>calls\<close>.
\<close>

record 'r recommender_ops =
  add_user_profile :: "string \<Rightarrow> pyval \<Rightarrow> 'r \<Rightarrow> (exn + unit) \<times> 'r"
  get_recommendations :: "string \<Rightarrow> pyval \<Rightarrow> pyval \<Rightarrow> 'r \<Rightarrow> (exn + pyval) \<times> 'r"
  get_personalized_advice :: "string \<Rightarrow> 'r \<Rightarrow> (exn + pyval) \<times> 'r"

datatype core_call =
    AddUserProfile string pyval
  | GetRecommendations string pyval pyval
  | GetPersonalizedAdvice string

record 'r sys =
  recommender :: 'r
  calls :: "core_call list"
  ticks :: nat

definition bindM ::
  "('s \<Rightarrow> (exn + 'a) \<times> 's) \<Rightarrow> ('a \<Rightarrow> 's \<Rightarrow> (exn + 'b) \<times> 's) \<Rightarrow> 's \<Rightarrow> (exn + 'b) \<times> 's" where
  "bindM m f s = (case m s of (Inl e, s') \<Rightarrow> (Inl e, s') | (Inr x, s') \<Rightarrow> f x s')"

definition liftM :: "exn + 'a \<Rightarrow> 's \<Rightarrow> (exn + 'a) \<times> 's" where
  "liftM m s = (m, s)"

text \<open>\<^verbatim>\<open>datetime.now().isoformat()\<close>: the next reading of the clock.\<close>

definition now :: "env \<Rightarrow> 'r sys \<Rightarrow> (exn + string) \<times> 'r sys" where
  "now env s = (Inr (clock env (ticks s)), s\<lparr>ticks := Suc (ticks s)\<rparr>)"

definition call_add_user_profile ::
  "'r recommender_ops \<Rightarrow> string \<Rightarrow> pyval \<Rightarrow> 'r sys \<Rightarrow> (exn + unit) \<times> 'r sys" where
  "call_add_user_profile ops uid prof s =
     (case add_user_profile ops uid prof (recommender s) of
        (r, rs) \<Rightarrow> (r, s\<lparr>recommender := rs, calls := calls s @ [AddUserProfile uid prof]\<rparr>))"

definition call_get_recommendations ::
  "'r recommender_ops \<Rightarrow> string \<Rightarrow> pyval \<Rightarrow> pyval \<Rightarrow> 'r sys \<Rightarrow> (exn + pyval) \<times> 'r sys" where
  "call_get_recommendations ops uid top_n fc s =
     (case get_recommendations ops uid top_n fc (recommender s) of
        (r, rs) \<Rightarrow> (r, s\<lparr>recommender := rs, calls := calls s @ [GetRecommendations uid top_n fc]\<rparr>))"

definition call_get_personalized_advice ::
  "'r recommender_ops \<Rightarrow> string \<Rightarrow> 'r sys \<Rightarrow> (exn + pyval) \<times> 'r sys" where
  "call_get_personalized_advice ops uid s =
     (case get_personalized_advice ops uid (recommender s) of
        (r, rs) \<Rightarrow> (r, s\<lparr>recommender := rs, calls := calls s @ [GetPersonalizedAdvice uid]\<rparr>))"

section \<open>POST /recommend\<close>

definition error_response :: "nat \<Rightarrow> string \<Rightarrow> response" where
  "error_response code msg =
     \<lparr>status = code, body = PDict [(''success'', PBool False), (''error'', PStr msg)]\<rparr>"

definition internal_error :: "env \<Rightarrow> exn \<Rightarrow> response" where
  "internal_error env e =
     \<lparr>status = 500,
      body = PDict [(''success'', PBool False), (''error'', PStr msg_internal),
                    (''detail'', PStr (exn_str env e))]\<rparr>"

definition required_fields :: "string list" where
  "required_fields = [''age'', ''annual_income'', ''risk_tolerance'']"

text \<open>\<^verbatim>\<open>[field for field in required_fields if field not in data]\<close>\<close>

fun missing :: "pyval \<Rightarrow> string list \<Rightarrow> exn + string list" where
  "missing data [] = Inr []"
| "missing data (f # fs) =
     (case py_contains data f of
        Inl e \<Rightarrow> Inl e
      | Inr b \<Rightarrow> (case missing data fs of
                   Inl e \<Rightarrow> Inl e
                 | Inr ms \<Rightarrow> Inr (if b then ms else f # ms)))"

text \<open>
  Lines 150 to 190: the checks on the request body. The result carries the submitted
  age and income (as sent and as numbers) and the risk tolerance.
\<close>

definition validate_request :: "pyval \<Rightarrow> (pyval \<times> pynum \<times> pyval \<times> pynum \<times> pyval) step" where
  "validate_request data =
     (if \<not> truthy data then
        Return \<lparr>status = 400,
                body = PDict [(''success'', PBool False), (''error'', PStr msg_json_required),
                              (''required_fields'', PList (map PStr required_fields))]\<rparr>
      else
        bindS (lift (missing data required_fields)) (\<lambda>missing_fields.
        if missing_fields \<noteq> [] then
          Return (error_response 400 (msg_missing_fields @ join '', '' missing_fields))
        else
          bindS (lift (py_getitem data ''age'')) (\<lambda>age.
          case as_num age of
            None \<Rightarrow> Return (error_response 400 msg_age_range)
          | Some a \<Rightarrow>
              if num_lt a 0 \<or> num_gt a 120 then Return (error_response 400 msg_age_range)
              else
                bindS (lift (py_getitem data ''annual_income'')) (\<lambda>income.
                case as_num income of
                  None \<Rightarrow> Return (error_response 400 msg_income)
                | Some i \<Rightarrow>
                    if num_lt i 0 then Return (error_response 400 msg_income)
                    else
                      bindS (lift (py_getitem data ''risk_tolerance'')) (\<lambda>risk_tolerance.
                      if risk_tolerance \<notin> set (map PStr valid_risk_levels) then
                        Return (error_response 400 (msg_risk @ join '', '' valid_risk_levels))
                      else Next (age, a, income, i, risk_tolerance))))))"

text \<open>Lines 204 to 209: an optional field is copied when the request has it.\<close>

definition copy_optional ::
  "pyval \<Rightarrow> string \<Rightarrow> (string \<times> pyval) list \<Rightarrow> exn + (string \<times> pyval) list" where
  "copy_optional data k prof =
     bindE (py_contains data k) (\<lambda>present.
     if present then bindE (py_getitem data k) (\<lambda>v. Inr (dict_set prof k v))
     else Inr prof)"

text \<open>Lines 193 to 209: the user profile.\<close>

definition build_user_profile :: "pyval \<Rightarrow> pynum \<Rightarrow> pynum \<Rightarrow> pyval \<Rightarrow> exn + pyval" where
  "build_user_profile data a i risk_tolerance =
     bindE (py_int a) (\<lambda>age_int.
     bindE (py_float i) (\<lambda>income_float.
     bindE (py_get data ''social_security'' (PStr urban_employee)) (\<lambda>social_security.
     bindE (py_get data ''retirement_age'' (PInt 60)) (\<lambda>retirement_age.
     bindE (mul_half i) (\<lambda>half_income.
     bindE (py_get data ''investment_amount'' (PFloat half_income)) (\<lambda>investment_amount.
     bindE (py_get data ''location'' (PStr nationwide)) (\<lambda>location.
     bindE (copy_optional data ''family_status''
              [(''age'', PInt age_int),
               (''annual_income'', PFloat income_float),
               (''risk_tolerance'', risk_tolerance),
               (''social_security_type'', social_security),
               (''expected_retirement_age'', retirement_age),
               (''investment_amount'', investment_amount),
               (''location'', location)]) (\<lambda>p1.
     bindE (copy_optional data ''health_status'' p1) (\<lambda>p2.
     bindE (copy_optional data ''liquidity_needs'' p2) (\<lambda>p3.
     Inr (PDict p3)))))))))))"

text \<open>Lines 242 to 258: one formatted recommendation.\<close>

definition dget :: "(string \<times> pyval) list \<Rightarrow> string \<Rightarrow> pyval \<Rightarrow> pyval" where
  "dget kvs k d = (case map_of kvs k of None \<Rightarrow> d | Some v \<Rightarrow> v)"

fun format_rec :: "env \<Rightarrow> pyval \<Rightarrow> exn + pyval" where
  "format_rec env (PDict kvs) =
     bindE (py_get (dget kvs ''product_details'' (PDict [])) ''feature_keywords'' (PList []))
       (\<lambda>key_features.
     bindE (py_get (dget kvs ''product_details'' (PDict [])) ''sales_channel'' (PStr unknown_str))
       (\<lambda>sales_channel.
     bindE (py_get (dget kvs ''product_details'' (PDict [])) ''sales_scope'' (PStr unknown_str))
       (\<lambda>sales_scope.
     Inr (PDict
       [(''product_id'', dget kvs ''product_id'' PNone),
        (''product_name'', dget kvs ''product_name'' PNone),
        (''insurance_company'', dget kvs ''insurance_company'' PNone),
        (''match_score'', dget kvs ''match_score'' PNone),
        (''match_percentage'', PStr (py_str env (dget kvs ''match_score'' PNone) @ ''%'')),
        (''age_range'', dget kvs ''age_range'' PNone),
        (''insurance_type'', dget kvs ''insurance_type'' PNone),
        (''payment_type'', dget kvs ''payment_type'' PNone),
        (''min_premium'', dget kvs ''min_premium'' PNone),
        (''risk_level'', dget kvs ''risk_level'' PNone),
        (''coverage'', dget kvs ''coverage'' PNone),
        (''recommendation_reasons'', dget kvs ''recommendation_reasons'' (PList [])),
        (''key_features'', key_features),
        (''sales_channel'', sales_channel),
        (''sales_scope'', sales_scope)]))))"
| "format_rec env v = Inl AttributeError"

text \<open>Line 213: the user id, the first 12 hex digits of an MD5 digest.\<close>

definition make_user_id :: "env \<Rightarrow> string \<Rightarrow> pyval \<Rightarrow> pyval \<Rightarrow> pyval \<Rightarrow> string" where
  "make_user_id env t age income risk_tolerance =
     take 12 (md5_hexdigest env (t @ py_str env age @ py_str env income @ py_str env risk_tolerance))"

text \<open>
  Lines 211 to 269: the calls into the core and the response. The profile handed to
  \<^verbatim>\<open>add_user_profile\<close> is the object put into the response; the model takes it that
  the core leaves that dict as it is.
\<close>

definition recommend_core ::
  "env \<Rightarrow> 'r recommender_ops \<Rightarrow> pyval \<Rightarrow> pyval \<Rightarrow> pyval \<Rightarrow> pyval \<Rightarrow> pyval \<Rightarrow>
   'r sys \<Rightarrow> (exn + response) \<times> 'r sys" where
  "recommend_core env ops data age income risk_tolerance user_profile =
     bindM (now env) (\<lambda>t1.
     bindM (call_add_user_profile ops (make_user_id env t1 age income risk_tolerance) user_profile)
       (\<lambda>_.
     bindM (liftM (py_get data ''filter_criteria'' PNone)) (\<lambda>filter_criteria.
     bindM (liftM (py_get data ''top_n'' (PInt 5))) (\<lambda>top_n.
     bindM (call_get_recommendations ops (make_user_id env t1 age income risk_tolerance)
              top_n filter_criteria) (\<lambda>recommendations.
     bindM (now env) (\<lambda>t2.
     bindM (liftM (py_get recommendations ''total_products_evaluated'' (PInt 0))) (\<lambda>total.
     bindM (liftM (py_get recommendations ''recommendations'' (PList []))) (\<lambda>recs.
     bindM (liftM (py_len recs)) (\<lambda>recommendation_count.
     bindM (liftM (py_iter recs)) (\<lambda>items.
     bindM (liftM (mapE (format_rec env) items)) (\<lambda>formatted.
     bindM (call_get_personalized_advice ops (make_user_id env t1 age income risk_tolerance))
       (\<lambda>personalized_advice.
     bindM (liftM (py_get personalized_advice ''general_advice'' (PList []))) (\<lambda>general_advice.
     bindM (liftM (py_get personalized_advice ''product_type_recommendations'' (PList [])))
       (\<lambda>product_types.
     bindM (liftM (py_get personalized_advice ''next_steps'' (PList []))) (\<lambda>next_steps.
     liftM (Inr
       \<lparr>status = 200,
        body = PDict
          [(''success'', PBool True),
           (''timestamp'', PStr t2),
           (''api_version'', PStr ''3.0''),
           (''user_profile'', user_profile),
           (''total_products_evaluated'', total),
           (''recommendation_count'', PInt (int recommendation_count)),
           (''recommendations'', PList formatted),
           (''personalized_advice'', PDict
              [(''general_advice'', general_advice),
               (''product_type_recommendations'', product_types),
               (''next_steps'', next_steps)])]\<rparr>))))))))))))))))"

text \<open>
  The handler. \<open>req\<close> is the outcome of \<^verbatim>\<open>request.get_json()\<close>, which is inside the
  \<^verbatim>\<open>try\<close>; \<^verbatim>\<open>except Exception\<close> turns every exception into the 500 response (the
  line it writes to the log is not modelled).
\<close>

definition prepare :: "pyval \<Rightarrow> (pyval \<times> pyval \<times> pyval \<times> pyval) step" where
  "prepare data =
     bindS (validate_request data) (\<lambda>(age, a, income, i, risk_tolerance).
     bindS (lift (build_user_profile data a i risk_tolerance)) (\<lambda>user_profile.
     Next (age, income, risk_tolerance, user_profile)))"

definition recommend_products ::
  "env \<Rightarrow> 'r recommender_ops \<Rightarrow> exn + pyval \<Rightarrow> 'r sys \<Rightarrow> response \<times> 'r sys" where
  "recommend_products env ops req s =
     (case req of
        Inl e \<Rightarrow> (internal_error env e, s)
      | Inr data \<Rightarrow>
          (case prepare data of
             Raise e \<Rightarrow> (internal_error env e, s)
           | Return r \<Rightarrow> (r, s)
           | Next (age, income, risk_tolerance, user_profile) \<Rightarrow>
               (case recommend_core env ops data age income risk_tolerance user_profile s of
                  (Inl e, s') \<Rightarrow> (internal_error env e, s')
                | (Inr r, s') \<Rightarrow> (r, s'))))"

section \<open>GET /product/<product_id> and GET /search\<close>

text \<open>
  The methods of the analyzer the two handlers call, over any implementation: a method
  may raise. \<^verbatim>\<open>search_products\<close> returns a pandas DataFrame, modelled by its rows (the
  dicts \<^verbatim>\<open>to_dict('records')\<close> makes of them).
\<close>

record 'a analyzer_ops =
  get_product_details :: "'a \<Rightarrow> string \<Rightarrow> exn + pyval"
  analyzer_search_products :: "'a \<Rightarrow> string \<Rightarrow> exn + pyval list"

definition not_initialized :: response where
  "not_initialized = \<lparr>status = 500, body = PDict [(''error'', PStr msg_not_initialized)]\<rparr>"

definition failure :: "env \<Rightarrow> exn \<Rightarrow> response" where
  "failure env e =
     \<lparr>status = 500, body = PDict [(''success'', PBool False), (''error'', PStr (exn_str env e))]\<rparr>"

text \<open>Lines 280 to 302. \<open>analyzer\<close> is the module's global, which may be \<^verbatim>\<open>None\<close>.\<close>

definition get_product_detail ::
  "env \<Rightarrow> 'a analyzer_ops \<Rightarrow> 'a option \<Rightarrow> string \<Rightarrow> response" where
  "get_product_detail env aops analyzer pid =
     (case analyzer of
        None \<Rightarrow> not_initialized
      | Some a \<Rightarrow>
          (case get_product_details aops a pid of
             Inl e \<Rightarrow> failure env e
           | Inr product_details \<Rightarrow>
               if truthy product_details then
                 \<lparr>status = 200,
                  body = PDict [(''success'', PBool True), (''product'', product_details)]\<rparr>
               else error_response 404 (msg_product_not_found @ pid)))"





section \<open>initialize_system\<close>

text \<open>
  Lines 28 to 49, over any analyzer class: \<open>a0\<close> is the object the constructor
  \<^verbatim>\<open>PensionProductAnalyzer()\<close> returned. The function has no \<^verbatim>\<open>try\<close>: an exception
  of a method leaves it.
\<close>

record ('a, 'r, 'd) analyzer_class =
  df :: "'a \<Rightarrow> 'd option"
  processed_df :: "'a \<Rightarrow> 'd option"
  create_demo_data :: "'a \<Rightarrow> exn + 'a"
  process_data :: "'a \<Rightarrow> exn + 'a"
  new_recommender :: "'a \<Rightarrow> exn + 'r"

definition initialize_system :: "('a, 'r, 'd) analyzer_class \<Rightarrow> 'a \<Rightarrow> exn + 'a \<times> 'r" where
  "initialize_system cls a0 =
     bindE (if df cls a0 = None then create_demo_data cls a0 else Inr a0) (\<lambda>a1.
     bindE (if processed_df cls a1 = None then process_data cls a1 else Inr a1) (\<lambda>a2.
     bindE (new_recommender cls a2) (\<lambda>r.
     Inr (a2, r))))"

section \<open>The core, from the specification\<close>

text \<open>
  \<^verbatim>\<open>data_processor.py\<close> and \<^verbatim>\<open>recommender.py\<close> are not among the source files. What
  follows models, from the specification (sections 3 and 4), the parts of them the
  statements below are about: the lookups of the Catalog Store, the Scoring Engine and
  the Recommender's ranking. Where the specification leaves a quantity open (the credit
  of a soft factor, the reasons) it is a parameter.
\<close>

text \<open>Modelled from the spec: the Product record of section 3 (the class is in
  \<^verbatim>\<open>data_processor.py\<close>, which is missing).\<close>

record product =
  product_id :: string
  product_name :: string
  insurance_company :: string
  min_age :: int
  max_age :: int
  insurance_type :: string
  payment_type :: string
  min_premium :: real
  risk_level :: string
  coverage :: string
  feature_keywords :: "string list"
  sales_channel :: string
  sales_scope :: string

text \<open>Modelled from the spec: a Product as the dict the boundary reads (section 3;
  \<open>age_range\<close> is the inclusive interval \<open>[min_age, max_age]\<close>).\<close>

definition product_fields :: "product \<Rightarrow> (string \<times> pyval) list" where
  "product_fields p =
     [(''product_id'', PStr (product_id p)),
      (''product_name'', PStr (product_name p)),
      (''insurance_company'', PStr (insurance_company p)),
      (''age_range'', PList [PInt (min_age p), PInt (max_age p)]),
      (''insurance_type'', PStr (insurance_type p)),
      (''payment_type'', PStr (payment_type p)),
      (''min_premium'', PFloat (Fin (min_premium p))),
      (''risk_level'', PStr (risk_level p)),
      (''coverage'', PStr (coverage p)),
      (''feature_keywords'', PList (map PStr (feature_keywords p))),
      (''sales_channel'', PStr (sales_channel p)),
      (''sales_scope'', PStr (sales_scope p))]"

subsection \<open>Catalog Store\<close>

record catalog_store =
  raw :: "product list option"
  processed :: "product list option"

text \<open>Modelled from the spec: the catalog the read queries see, the normalised set
  (empty when nothing is processed).\<close>

definition catalog_of :: "catalog_store \<Rightarrow> product list" where
  "catalog_of a = (case processed a of None \<Rightarrow> [] | Some ps \<Rightarrow> ps)"

text \<open>Modelled from the spec: \<^verbatim>\<open>get_product_details\<close>, which is missing. "get(product_id):
  exact lookup; returns 'not found' signal (no record)".\<close>

definition spec_get_product_details :: "catalog_store \<Rightarrow> string \<Rightarrow> exn + pyval" where
  "spec_get_product_details a pid =
     Inr (case find (\<lambda>p. product_id p = pid) (catalog_of a) of
            None \<Rightarrow> PNone
          | Some p \<Rightarrow> PDict (product_fields p))"

text \<open>Modelled from the spec: \<^verbatim>\<open>search_products\<close>, which is missing. "Case-insensitive
  substring match against product_name, insurance_company, and feature_keywords; returns
  matches in catalog order" (letters A to Z are folded).\<close>

definition lower_char :: "char \<Rightarrow> char" where
  "lower_char c =
     (if 65 \<le> (of_char c :: nat) \<and> (of_char c :: nat) \<le> 90 then char_of ((of_char c :: nat) + 32)
      else c)"

definition matches_keyword :: "string \<Rightarrow> product \<Rightarrow> bool" where
  "matches_keyword k p =
     (\<exists>t \<in> set (product_name p # insurance_company p # feature_keywords p).
        is_substring (map lower_char k) (map lower_char t))"

definition spec_search_products :: "catalog_store \<Rightarrow> string \<Rightarrow> exn + pyval list" where
  "spec_search_products a k =
     Inr (map (\<lambda>p. PDict (product_fields p)) (filter (matches_keyword k) (catalog_of a)))"

definition spec_analyzer_ops :: "catalog_store analyzer_ops" where
  "spec_analyzer_ops =
     \<lparr>get_product_details = spec_get_product_details,
      analyzer_search_products = spec_search_products\<rparr>"

subsection \<open>Scoring Engine\<close>

text \<open>Modelled from the spec: the Scoring Engine of section 4.2, which is missing. Age
  eligibility is the gate: full credit (25) inside \<open>[min_age, max_age]\<close>, and outside it
  the product is excluded, "not merely down-scored". The credits of the four soft factors
  and the reasons are parameters. The total is clamped to [0,100] and rounded to the
  nearest integer.\<close>

record factors =
  risk_alignment :: "pyval \<Rightarrow> product \<Rightarrow> real"
  affordability :: "pyval \<Rightarrow> product \<Rightarrow> real"
  geographic_fit :: "pyval \<Rightarrow> product \<Rightarrow> real"
  horizon_fit :: "pyval \<Rightarrow> product \<Rightarrow> real"
  reasons :: "pyval \<Rightarrow> product \<Rightarrow> string list"

definition profile_age :: "pyval \<Rightarrow> int option" where
  "profile_age prof = (case py_getitem prof ''age'' of Inr (PInt n) \<Rightarrow> Some n | _ \<Rightarrow> None)"

definition age_eligible :: "int \<Rightarrow> product \<Rightarrow> bool" where
  "age_eligible a p = (min_age p \<le> a \<and> a \<le> max_age p)"

definition clamp_round :: "real \<Rightarrow> nat" where
  "clamp_round x = nat \<lfloor>max 0 (min 100 x) + 1 / 2\<rfloor>"

definition match_score :: "factors \<Rightarrow> pyval \<Rightarrow> product \<Rightarrow> nat option" where
  "match_score fac prof p =
     (case profile_age prof of
        None \<Rightarrow> None
      | Some a \<Rightarrow>
          if age_eligible a p then
            Some (clamp_round (25 + risk_alignment fac prof p + affordability fac prof p
                               + geographic_fit fac prof p + horizon_fit fac prof p))
          else None)"

subsection \<open>Recommender\<close>

text \<open>Modelled from the spec: the filter of section 4.3, step 1, which is missing.
  "Exact-match predicates on fields"; no criteria, no filtering.\<close>

definition matches_filter :: "pyval \<Rightarrow> product \<Rightarrow> bool" where
  "matches_filter fc p =
     (case fc of
        PDict kvs \<Rightarrow> list_all (\<lambda>(k, v). map_of (product_fields p) k = Some v) kvs
      | _ \<Rightarrow> True)"

text \<open>Modelled from the spec: step 2, which is missing. "Score every remaining product
  via the Scoring Engine; drop gate-excluded products".\<close>

definition score_all :: "factors \<Rightarrow> pyval \<Rightarrow> product list \<Rightarrow> (product \<times> nat) list" where
  "score_all fac prof ps =
     List.map_filter (\<lambda>p. map_option (\<lambda>s. (p, s)) (match_score fac prof p)) ps"

text \<open>Modelled from the spec: step 3, which is missing. Descending score, ties by
  ascending \<open>min_premium\<close>, then catalog order (two stable sorts).\<close>

definition rank :: "(product \<times> nat) list \<Rightarrow> (product \<times> nat) list" where
  "rank xs = sort_key (\<lambda>x. - int (snd x)) (sort_key (\<lambda>x. min_premium (fst x)) xs)"

text \<open>Modelled from the spec: \<open>recommend(profile, top_n, filter_criteria)\<close>, steps 1 to 5.
  "Truncate to top_n (must accept 0 meaning no recommendations and reject negative values
  as invalid input, signaled to the caller)".\<close>

definition recommend ::
  "factors \<Rightarrow> product list \<Rightarrow> pyval \<Rightarrow> int \<Rightarrow> pyval \<Rightarrow> exn + (product \<times> nat) list \<times> nat" where
  "recommend fac cat prof top_n fc =
     (if top_n < 0 then Inl (CoreError ''invalid top_n'')
      else Inr (take (nat top_n) (rank (score_all fac prof (filter (matches_filter fc) cat))),
                length (filter (matches_filter fc) cat)))"

section \<open>Auxiliary notions for the statements\<close>

text \<open>The seven entries every profile has, in the order of the dict literal at line 193.\<close>

definition base_profile ::
  "int \<Rightarrow> pyfloat \<Rightarrow> pyval \<Rightarrow> pyval \<Rightarrow> pyval \<Rightarrow> pyval \<Rightarrow> pyval \<Rightarrow> (string \<times> pyval) list" where
  "base_profile n f risk ss ra ia loc =
     [(''age'', PInt n), (''annual_income'', PFloat f), (''risk_tolerance'', risk),
      (''social_security_type'', ss), (''expected_retirement_age'', ra),
      (''investment_amount'', ia), (''location'', loc)]"

text \<open>What \<open>copy_optional\<close> does when the request body is a dict.\<close>

definition with_optional ::
  "(string \<times> pyval) list \<Rightarrow> string \<Rightarrow> (string \<times> pyval) list \<Rightarrow> (string \<times> pyval) list" where
  "with_optional kvs k prof = (case map_of kvs k of None \<Rightarrow> prof | Some v \<Rightarrow> dict_set prof k v)"

text \<open>The smallest positive double, \<open>2^-1074\<close> (written 5e-324).\<close>

definition min_subnormal :: real where
  "min_subnormal = 1 / 2 ^ 1074"

text \<open>
  An environment for evaluating the handlers on examples. The decimal literals are read
  as \<^verbatim>\<open>int()\<close> reads them (Python also allows white space around and underscores
  inside); the digest and the texts are stand-ins, since no example depends on them.
\<close>

definition is_digit :: "char \<Rightarrow> bool" where
  "is_digit c = (48 \<le> (of_char c :: nat) \<and> (of_char c :: nat) \<le> 57)"

fun digits_val :: "string \<Rightarrow> nat \<Rightarrow> nat option" where
  "digits_val [] acc = Some acc"
| "digits_val (c # cs) acc =
     (if is_digit c then digits_val cs (10 * acc + (of_char c - 48)) else None)"

definition unsigned_int :: "string \<Rightarrow> exn + int" where
  "unsigned_int s =
     (if s = [] then Inl ValueError
      else case digits_val s 0 of None \<Rightarrow> Inl ValueError | Some n \<Rightarrow> Inr (int n))"

definition parse_int :: "string \<Rightarrow> exn + int" where
  "parse_int s =
     (case s of
        [] \<Rightarrow> Inl ValueError
      | c # cs \<Rightarrow>
          if c = CHR ''-'' then bindE (unsigned_int cs) (\<lambda>n. Inr (- n))
          else if c = CHR ''+'' then unsigned_int cs
          else unsigned_int s)"

definition test_env :: env where
  "test_env =
     \<lparr>fmt = (\<lambda>v. ''''), md5_hexdigest = (\<lambda>s. s), exn_str = (\<lambda>e. ''''),
      clock = (\<lambda>n. ''2024-11-03T01:30:00''), int_of_text = parse_int\<rparr>"

text \<open>A recommender that answers every call with fixed values, and an analyzer whose
  search finds three rows.\<close>

definition fixed_recommender :: "pyval \<Rightarrow> pyval \<Rightarrow> unit recommender_ops" where
  "fixed_recommender recs advice =
     \<lparr>add_user_profile = (\<lambda>uid p r. (Inr (), r)),
      get_recommendations = (\<lambda>uid top_n fc r. (Inr recs, r)),
      get_personalized_advice = (\<lambda>uid r. (Inr advice, r))\<rparr>"


text \<open>A product and a catalog store for the examples.\<close>

definition sample_product :: product where
  "sample_product =
     \<lparr>product_id = ''P001'', product_name = ''Demo Annuity'',
      insurance_company = ''Demo Life'', min_age = 18, max_age = 60,
      insurance_type = ''annuity'', payment_type = ''periodic'', min_premium = 1,
      risk_level = risk_mid, coverage = ''lifetime income'',
      feature_keywords = [''pension''], sales_channel = ''online'',
      sales_scope = nationwide\<rparr>"

definition sample_store :: catalog_store where
  "sample_store = \<lparr>raw = Some [sample_product], processed = Some [sample_product]\<rparr>"

text \<open>Soft factors that give no credit.\<close>

definition no_credit :: factors where
  "no_credit =
     \<lparr>risk_alignment = (\<lambda>prof p. 0), affordability = (\<lambda>prof p. 0),
      geographic_fit = (\<lambda>prof p. 0), horizon_fit = (\<lambda>prof p. 0),
      reasons = (\<lambda>prof p. [])\<rparr>"

definition senior_product :: product where
  "senior_product = sample_product\<lparr>product_id := ''P002'', min_age := 61, max_age := 80\<rparr>"

text \<open>
  Submissions with the same age, income and risk tolerance and different locations, and
  the profile the handler builds of each. Under \<open>test_env\<close> the readings of the clock
  repeat (a naive local time repeats when the clock is set back, and two readings
  within the clock's resolution are equal).
\<close>

definition request_from :: "string \<Rightarrow> pyval" where
  "request_from city =
     PDict [(''age'', PInt 35), (''annual_income'', PFloat (Fin 25)),
            (''risk_tolerance'', PStr risk_mid), (''location'', PStr city)]"

definition profile_from :: "string \<Rightarrow> pyval" where
  "profile_from city =
     PDict (base_profile 35 (Fin 25) (PStr risk_mid) (PStr urban_employee) (PInt 60)
              (PFloat (Fin (25 / 2))) (PStr city))"

text \<open>A submission that asks for \<open>top_n = -1\<close>.\<close>

definition negative_top_n_request :: pyval where
  "negative_top_n_request =
     PDict [(''age'', PInt 35), (''annual_income'', PFloat (Fin 25)),
            (''risk_tolerance'', PStr risk_mid), (''top_n'', PInt (- 1))]"

section \<open>Basic facts about the control-flow combinators\<close>

lemma bindS_Next: "bindS m f = Next y \<Longrightarrow> \<exists>x. m = Next x \<and> f x = Next y"
  by (cases m) (auto simp: bindS_def)

lemma lift_Next: "lift m = Next x \<longleftrightarrow> m = Inr x"
  by (cases m) (auto simp: lift_def)

lemma bindE_Inr: "bindE m f = Inr y \<Longrightarrow> \<exists>x. m = Inr x \<and> f x = Inr y"
  by (cases m) (auto simp: bindE_def)

lemma bindM_Inr: "bindM m f s = (Inr y, s') \<Longrightarrow> \<exists>x s1. m s = (Inr x, s1) \<and> f x s1 = (Inr y, s')"
  by (cases "m s") (auto simp: bindM_def split: sum.splits)

lemma liftM_eq: "liftM m s = (r, s') \<longleftrightarrow> m = r \<and> s' = s"
  by (auto simp: liftM_def)

lemma py_getitem_Inr:
  "py_getitem d k = Inr v \<Longrightarrow> \<exists>kvs. d = PDict kvs \<and> map_of kvs k = Some v"
  by (cases d) (auto split: option.splits)

lemma py_get_Inr: "py_get d k dflt = Inr v \<Longrightarrow> \<exists>kvs. d = PDict kvs \<and> v = dget kvs k dflt"
  by (cases d) (auto simp: dget_def)

lemma map_of_dict_set: "map_of (dict_set ps k v) k' = (if k' = k then Some v else map_of ps k')"
  by (induction ps) auto

lemma copy_optional_dict: "copy_optional (PDict kvs) k prof = Inr (with_optional kvs k prof)"
  by (simp add: copy_optional_def with_optional_def bindE_def split: option.splits)

lemma map_of_with_optional:
  "map_of (with_optional kvs k prof) k' =
     (if k' = k \<and> map_of kvs k \<noteq> None then map_of kvs k else map_of prof k')"
  by (auto simp: with_optional_def map_of_dict_set split: option.splits)

lemma mul_half_py_float: "mul_half i = bindE (py_float i) (\<lambda>f. Inr (fmul_half f))"
  by (cases i) (simp_all add: bindE_def)

section \<open>What an accepted request looks like\<close>

lemma validate_request_Next:
  assumes "validate_request data = Next (age, a, income, i, risk)"
  shows "\<exists>kvs. data = PDict kvs \<and>
           map_of kvs ''age'' = Some age \<and> as_num age = Some a \<and>
           \<not> num_lt a 0 \<and> \<not> num_gt a 120 \<and>
           map_of kvs ''annual_income'' = Some income \<and> as_num income = Some i \<and>
           \<not> num_lt i 0 \<and>
           map_of kvs ''risk_tolerance'' = Some risk \<and> risk \<in> set (map PStr valid_risk_levels)"
  using assms unfolding validate_request_def
  by (auto split: if_splits option.splits dest!: bindS_Next py_getitem_Inr simp: lift_Next)

lemma build_user_profile_dict:
  assumes "build_user_profile (PDict kvs) a i risk = Inr p"
  shows "\<exists>n f. py_int a = Inr n \<and> py_float i = Inr f \<and>
     p = PDict (with_optional kvs ''liquidity_needs'' (with_optional kvs ''health_status''
          (with_optional kvs ''family_status''
            (base_profile n f risk (dget kvs ''social_security'' (PStr urban_employee))
               (dget kvs ''retirement_age'' (PInt 60))
               (dget kvs ''investment_amount'' (PFloat (fmul_half f)))
               (dget kvs ''location'' (PStr nationwide))))))"
  using assms unfolding build_user_profile_def mul_half_py_float
  by (auto dest!: bindE_Inr simp: copy_optional_dict base_profile_def dget_def)

lemma prepare_Next:
  assumes "prepare data = Next (age, income, risk, p)"
  shows "\<exists>kvs a i n f. data = PDict kvs \<and>
           map_of kvs ''age'' = Some age \<and> as_num age = Some a \<and>
           \<not> num_lt a 0 \<and> \<not> num_gt a 120 \<and>
           map_of kvs ''annual_income'' = Some income \<and> as_num income = Some i \<and>
           \<not> num_lt i 0 \<and>
           map_of kvs ''risk_tolerance'' = Some risk \<and> risk \<in> set (map PStr valid_risk_levels) \<and>
           py_int a = Inr n \<and> py_float i = Inr f \<and>
           p = PDict (with_optional kvs ''liquidity_needs'' (with_optional kvs ''health_status''
                (with_optional kvs ''family_status''
                  (base_profile n f risk (dget kvs ''social_security'' (PStr urban_employee))
                     (dget kvs ''retirement_age'' (PInt 60))
                     (dget kvs ''investment_amount'' (PFloat (fmul_half f)))
                     (dget kvs ''location'' (PStr nationwide))))))"
proof -
  from assms obtain a i where
    v: "validate_request data = Next (age, a, income, i, risk)" and
    b: "build_user_profile data a i risk = Inr p"
    unfolding prepare_def by (auto dest!: bindS_Next simp: lift_Next)
  from validate_request_Next [OF v] obtain kvs where
    k: "data = PDict kvs" "map_of kvs ''age'' = Some age" "as_num age = Some a"
       "\<not> num_lt a 0" "\<not> num_gt a 120" "map_of kvs ''annual_income'' = Some income"
       "as_num income = Some i" "\<not> num_lt i 0" "map_of kvs ''risk_tolerance'' = Some risk"
       "risk \<in> set (map PStr valid_risk_levels)"
    by blast
  from b build_user_profile_dict [of kvs a i risk p] k(1) obtain n f where
    "py_int a = Inr n" "py_float i = Inr f"
    "p = PDict (with_optional kvs ''liquidity_needs'' (with_optional kvs ''health_status''
                (with_optional kvs ''family_status''
                  (base_profile n f risk (dget kvs ''social_security'' (PStr urban_employee))
                     (dget kvs ''retirement_age'' (PInt 60))
                     (dget kvs ''investment_amount'' (PFloat (fmul_half f)))
                     (dget kvs ''location'' (PStr nationwide))))))"
    by blast
  with k show ?thesis by blast
qed

lemma validate_request_Return:
  "validate_request data = Return r \<Longrightarrow>
     status r = 400 \<and> (\<exists>b. body r = PDict b \<and> map_of b ''success'' = Some (PBool False))"
  unfolding validate_request_def
  by (auto simp: bindS_def lift_def error_response_def
      split: if_splits sum.splits option.splits)

lemma prepare_Return:
  "prepare data = Return r \<Longrightarrow>
     status r = 400 \<and> (\<exists>b. body r = PDict b \<and> map_of b ''success'' = Some (PBool False))"
  unfolding prepare_def
  by (cases "validate_request data")
     (auto simp: bindS_def lift_def dest: validate_request_Return split: sum.splits)

section \<open>POST /recommend: validation\<close>

lemma half_double_min: "half_double min_subnormal = Fin 0"
proof -
  have e: "(1 / 2 ^ 1074) * 2 ^ 1074 / 2 = (1 / 2 :: real)" by simp
  have f: "\<lfloor>1 / 2 :: real\<rfloor> = 0" by simp
  have g: "real_of_int 0 \<noteq> 1 / 2" by simp
  show ?thesis unfolding half_double_def min_subnormal_def Let_def e f using g by simp
qed

lemma half_double_exact: "x * 2 ^ 1073 \<in> \<int> \<Longrightarrow> half_double x = Fin (x / 2)"
proof -
  assume a: "x * 2 ^ 1073 \<in> \<int>"
  define h where "h = x * 2 ^ 1074 / 2"
  have "h = x * 2 ^ 1073" unfolding h_def by simp
  with a obtain n where "h = of_int n" by (auto simp: Ints_def)
  then have "of_int \<lfloor>h\<rfloor> = h" by simp
  then show ?thesis unfolding half_double_def Let_def h_def [symmetric] by simp
qed

text \<open>
  What the checks of lines 150 to 190 do reject, for a body that is a JSON object: a
  missing required field, an age or income that is not an \<^verbatim>\<open>int\<close>, \<^verbatim>\<open>float\<close> or
  \<^verbatim>\<open>bool\<close> or that compares below 0 (or, the age, above 120), a risk tolerance outside
  the five levels. The response is a 400 and the state is as before: no method of the
  core is called. An accepted request does reach the core.
\<close>

lemma rejected_request_leaves_state:
  assumes "prepare data = Return r"
  shows "recommend_products env ops (Inr data) s = (r, s) \<and> status r = 400"
  using assms prepare_Return [OF assms] by (simp add: recommend_products_def)

lemma validate_request_dict_no_raise: "validate_request (PDict kvs) \<noteq> Raise e"
  unfolding validate_request_def required_fields_def
  by (simp add: bindS_def lift_def split: option.splits)

lemma validate_request_dict_rejects:
  assumes "map_of kvs ''age'' = None \<or> map_of kvs ''annual_income'' = None \<or>
         map_of kvs ''risk_tolerance'' = None \<or>
         (\<exists>v. map_of kvs ''age'' = Some v \<and>
              (case as_num v of None \<Rightarrow> True | Some a \<Rightarrow> num_lt a 0 \<or> num_gt a 120)) \<or>
         (\<exists>v. map_of kvs ''annual_income'' = Some v \<and>
              (case as_num v of None \<Rightarrow> True | Some i \<Rightarrow> num_lt i 0)) \<or>
         (\<exists>v. map_of kvs ''risk_tolerance'' = Some v \<and> v \<notin> set (map PStr valid_risk_levels))"
  shows "\<exists>r. prepare (PDict kvs) = Return r \<and> status r = 400"
proof (cases "validate_request (PDict kvs)")
  case (Raise e)
  then show ?thesis by (simp add: validate_request_dict_no_raise)
next
  case (Return r)
  then show ?thesis
    using validate_request_Return [OF Return] by (simp add: prepare_def bindS_def)
next
  case (Next x)
  obtain age a income i risk where x: "x = (age, a, income, i, risk)"
    by (cases x) auto
  from validate_request_Next [OF Next [unfolded x]] have
    "map_of kvs ''age'' = Some age" "as_num age = Some a" "\<not> num_lt a 0" "\<not> num_gt a 120"
    "map_of kvs ''annual_income'' = Some income" "as_num income = Some i" "\<not> num_lt i 0"
    "map_of kvs ''risk_tolerance'' = Some risk" "risk \<in> set (map PStr valid_risk_levels)"
    by auto
  with assms show ?thesis by auto
qed

lemma accepted_request_reaches_core:
  assumes "prepare data = Next (age, income, risk, prof)"
  shows "\<exists>cs. calls (snd (recommend_products env ops (Inr data) s))
           = calls s @ AddUserProfile (make_user_id env (clock env (ticks s)) age income risk) prof # cs"
proof -
  obtain res rs where a: "add_user_profile ops
      (make_user_id env (clock env (ticks s)) age income risk) prof (recommender s) = (res, rs)"
    by (cases "add_user_profile ops
      (make_user_id env (clock env (ticks s)) age income risk) prof (recommender s)")
  show ?thesis
    by (simp add: recommend_products_def assms recommend_core_def bindM_def liftM_def now_def
        call_add_user_profile_def call_get_recommendations_def
        call_get_personalized_advice_def a
        split: prod.splits sum.splits)
qed

text \<open>
  Claim C1. Every request with a missing required field, an \<open>age\<close> that is not a number in
  [0,120], an \<open>annual_income\<close> that is not a non-negative number or a \<open>risk_tolerance\<close>
  outside the five levels gets HTTP 400, and the core is not called.

  The handler misses cases. An \<open>age\<close> of NaN is neither below 0 nor above 120, so it passes
  line 169, and \<^verbatim>\<open>int(age)\<close> at line 194 raises: the response is the 500 of the
  \<^verbatim>\<open>except\<close> clause. A body that is the JSON array of the three field names has every
  field "in" it (list membership at line 159), and \<^verbatim>\<open>data['age']\<close> raises: 500 again.
  An \<open>age\<close> of \<^verbatim>\<open>true\<close> is an instance of \<^verbatim>\<open>int\<close> and an \<open>annual_income\<close> of NaN is not
  below 0: the request is accepted, with age 1 and income NaN in the profile.
\<close>

theorem recommend_validation_gaps:
  "recommend_products env ops
     (Inr (PDict [(''age'', PFloat NaN), (''annual_income'', PFloat (Fin 25)),
                  (''risk_tolerance'', PStr risk_mid)])) s
   = (internal_error env ValueError, s)
   \<and> recommend_products env ops
     (Inr (PList [PStr ''age'', PStr ''annual_income'', PStr ''risk_tolerance''])) s
   = (internal_error env TypeError, s)
   \<and> prepare (PDict [(''age'', PBool True), (''annual_income'', PFloat NaN),
                     (''risk_tolerance'', PStr risk_mid)])
   = Next (PBool True, PFloat NaN, PStr risk_mid,
       PDict (base_profile 1 NaN (PStr risk_mid) (PStr urban_employee) (PInt 60)
                (PFloat NaN) (PStr nationwide)))"
  by (simp add: recommend_products_def prepare_def validate_request_def required_fields_def
      bindS_def lift_def valid_risk_levels_def build_user_profile_def bindE_def
      copy_optional_def base_profile_def)

section \<open>POST /recommend: the user profile\<close>

text \<open>
  Claim C10. The age in the profile is \<^verbatim>\<open>int(age)\<close> of the submitted age: a fractional
  age that passed validation (so it lies in [0,120]) is stored as its floor.
\<close>

theorem profile_age_truncated:
  assumes "prepare data = Next (age, income, risk, p)"
  shows "\<exists>a n prof. as_num age = Some a \<and> py_int a = Inr n \<and> p = PDict prof \<and>
           map_of prof ''age'' = Some (PInt n) \<and>
           (\<forall>x. age = PFloat (Fin x) \<longrightarrow> 0 \<le> x \<and> x \<le> 120 \<and> n = \<lfloor>x\<rfloor>)"
proof -
  from prepare_Next [OF assms] obtain kvs a n f where
    h: "as_num age = Some a" "\<not> num_lt a 0" "\<not> num_gt a 120" "py_int a = Inr n"
       "p = PDict (with_optional kvs ''liquidity_needs'' (with_optional kvs ''health_status''
                (with_optional kvs ''family_status''
                  (base_profile n f risk (dget kvs ''social_security'' (PStr urban_employee))
                     (dget kvs ''retirement_age'' (PInt 60))
                     (dget kvs ''investment_amount'' (PFloat (fmul_half f)))
                     (dget kvs ''location'' (PStr nationwide))))))"
    by blast
  have "\<forall>x. age = PFloat (Fin x) \<longrightarrow> 0 \<le> x \<and> x \<le> 120 \<and> n = \<lfloor>x\<rfloor>"
    using h(1-4) by (auto simp: not_less)
  with h show ?thesis
    by (simp add: map_of_with_optional base_profile_def)
qed

text \<open>
  The double nearest to 35.9 is \<open>5052475831956275 / 2^47\<close>. A request with that age is
  accepted and its profile has age 35.
\<close>

theorem profile_age_truncated_witness:
  "\<exists>prof. prepare (PDict [(''age'', PFloat (Fin (5052475831956275 / 140737488355328))),
                           (''annual_income'', PFloat (Fin 25)),
                           (''risk_tolerance'', PStr risk_mid)])
           = Next (PFloat (Fin (5052475831956275 / 140737488355328)), PFloat (Fin 25),
                   PStr risk_mid, PDict prof)
         \<and> map_of prof ''age'' = Some (PInt 35)
         \<and> PInt 35 \<noteq> PFloat (Fin (5052475831956275 / 140737488355328))"
proof -
  let ?age = "PFloat (Fin (5052475831956275 / 140737488355328))"
  let ?data = "PDict [(''age'', ?age), (''annual_income'', PFloat (Fin 25)),
                      (''risk_tolerance'', PStr risk_mid)]"
  let ?prof = "base_profile 35 (Fin 25) (PStr risk_mid) (PStr urban_employee) (PInt 60)
                 (PFloat (Fin (25 / 2))) (PStr nationwide)"
  have h25: "half_double 25 = Fin (25 / 2)"
    by (rule half_double_exact) simp
  have p: "prepare ?data = Next (?age, PFloat (Fin 25), PStr risk_mid, PDict ?prof)"
    by (simp add: prepare_def validate_request_def required_fields_def bindS_def lift_def
        valid_risk_levels_def build_user_profile_def bindE_def copy_optional_def
        base_profile_def h25)
  from profile_age_truncated [OF p] have "map_of ?prof ''age'' = Some (PInt 35)"
    by auto
  with p show ?thesis by blast
qed

text \<open>
  Claim C2, as far as it holds. In the profile of an accepted request,
  \<open>social_security_type\<close>, \<open>expected_retirement_age\<close> and \<open>location\<close> take their defaults
  when the request has no \<open>social_security\<close>, \<open>retirement_age\<close>, \<open>location\<close>;
  \<open>investment_amount\<close> defaults to \<^verbatim>\<open>income * 0.5\<close>, the double product, which is half of
  the profile's \<open>annual_income\<close> whenever that half is a double (the income is a multiple of
  \<open>2^-1073\<close>); and each of \<open>family_status\<close>, \<open>health_status\<close>, \<open>liquidity_needs\<close> is in the
  profile exactly when it is in the request, with the submitted value.
\<close>

theorem profile_defaults:
  assumes "prepare data = Next (age, income, risk, p)"
  shows "\<exists>kvs prof f. data = PDict kvs \<and> p = PDict prof \<and>
     map_of prof ''annual_income'' = Some (PFloat f) \<and>
     (map_of kvs ''social_security'' = None \<longrightarrow>
        map_of prof ''social_security_type'' = Some (PStr urban_employee)) \<and>
     (map_of kvs ''retirement_age'' = None \<longrightarrow>
        map_of prof ''expected_retirement_age'' = Some (PInt 60)) \<and>
     (map_of kvs ''investment_amount'' = None \<longrightarrow>
        map_of prof ''investment_amount'' = Some (PFloat (fmul_half f))) \<and>
     (\<forall>x. f = Fin x \<longrightarrow> x * 2 ^ 1073 \<in> \<int> \<longrightarrow> fmul_half f = Fin (x / 2)) \<and>
     (map_of kvs ''location'' = None \<longrightarrow> map_of prof ''location'' = Some (PStr nationwide)) \<and>
     (\<forall>k \<in> {''family_status'', ''health_status'', ''liquidity_needs''}.
        map_of prof k = map_of kvs k)"
proof -
  from prepare_Next [OF assms] obtain kvs n f where
    h: "data = PDict kvs"
       "p = PDict (with_optional kvs ''liquidity_needs'' (with_optional kvs ''health_status''
                (with_optional kvs ''family_status''
                  (base_profile n f risk (dget kvs ''social_security'' (PStr urban_employee))
                     (dget kvs ''retirement_age'' (PInt 60))
                     (dget kvs ''investment_amount'' (PFloat (fmul_half f)))
                     (dget kvs ''location'' (PStr nationwide))))))"
    by blast
  have "\<forall>x. f = Fin x \<longrightarrow> x * 2 ^ 1073 \<in> \<int> \<longrightarrow> fmul_half f = Fin (x / 2)"
    by (simp add: half_double_exact)
  with h show ?thesis
    by (auto simp: map_of_with_optional base_profile_def dget_def split: option.splits)
qed

theorem profile_defaults_witness:
  "\<exists>prof. prepare (PDict [(''age'', PInt 35), (''annual_income'', PFloat (Fin 25)),
                           (''risk_tolerance'', PStr risk_mid),
                           (''health_status'', PStr ''good'')])
           = Next (PInt 35, PFloat (Fin 25), PStr risk_mid, PDict prof)
         \<and> map_of prof ''annual_income'' = Some (PFloat (Fin 25))
         \<and> map_of prof ''social_security_type'' = Some (PStr urban_employee)
         \<and> map_of prof ''expected_retirement_age'' = Some (PInt 60)
         \<and> map_of prof ''investment_amount'' = Some (PFloat (Fin (25 / 2)))
         \<and> map_of prof ''location'' = Some (PStr nationwide)
         \<and> map_of prof ''family_status'' = None
         \<and> map_of prof ''health_status'' = Some (PStr ''good'')
         \<and> map_of prof ''liquidity_needs'' = None"
proof -
  let ?kvs = "[(''age'', PInt 35), (''annual_income'', PFloat (Fin 25)),
               (''risk_tolerance'', PStr risk_mid), (''health_status'', PStr ''good'')]"
  let ?prof = "base_profile 35 (Fin 25) (PStr risk_mid) (PStr urban_employee) (PInt 60)
                 (PFloat (Fin (25 / 2))) (PStr nationwide) @ [(''health_status'', PStr ''good'')]"
  have h25: "half_double 25 = Fin (25 / 2)"
    by (rule half_double_exact) simp
  have p: "prepare (PDict ?kvs) = Next (PInt 35, PFloat (Fin 25), PStr risk_mid, PDict ?prof)"
    by (simp add: prepare_def validate_request_def required_fields_def bindS_def lift_def
        valid_risk_levels_def build_user_profile_def bindE_def copy_optional_def
        base_profile_def h25)
  from profile_defaults [OF p] show ?thesis
    by (elim exE conjE) (clarsimp simp: p h25 base_profile_def)
qed

text \<open>
  Claim C2 as stated fails where the half is not a double. The smallest positive double
  is \<open>min_subnormal\<close>; its half is a tie between 0 and \<open>2^-1074\<close> and rounds to the
  even one: the default \<open>investment_amount\<close> is 0.0, not half of the income.
\<close>

theorem default_investment_not_half:
  "prepare (PDict [(''age'', PInt 35), (''annual_income'', PFloat (Fin min_subnormal)),
                   (''risk_tolerance'', PStr risk_mid)])
     = Next (PInt 35, PFloat (Fin min_subnormal), PStr risk_mid,
         PDict [(''age'', PInt 35), (''annual_income'', PFloat (Fin min_subnormal)),
                (''risk_tolerance'', PStr risk_mid),
                (''social_security_type'', PStr urban_employee),
                (''expected_retirement_age'', PInt 60),
                (''investment_amount'', PFloat (Fin 0)),
                (''location'', PStr nationwide)])
   \<and> Fin 0 \<noteq> Fin (min_subnormal / 2)"
proof -
  have pos: "0 < min_subnormal"
    by (simp add: min_subnormal_def)
  then have nz: "min_subnormal / 2 \<noteq> 0" and nn: "\<not> min_subnormal < 0"
    by simp_all
  show ?thesis
    using nz nn
    by (simp add: prepare_def validate_request_def required_fields_def bindS_def lift_def
        valid_risk_levels_def build_user_profile_def bindE_def copy_optional_def
        half_double_min)
qed

section \<open>POST /recommend: the response\<close>

lemma mapE_Inr: "mapE f xs = Inr ys \<Longrightarrow> list_all2 (\<lambda>x y. f x = Inr y) xs ys"
  by (induction xs arbitrary: ys) (auto split: sum.splits)

lemma format_rec_Inr:
  assumes "format_rec env x = Inr y"
  shows "\<exists>kvs out. x = PDict kvs \<and> y = PDict out \<and>
           map_of out ''match_score'' = Some (dget kvs ''match_score'' PNone) \<and>
           map_of out ''match_percentage'' =
             Some (PStr (py_str env (dget kvs ''match_score'' PNone) @ ''%''))"
  using assms by (cases x) (auto dest!: bindE_Inr)

lemma py_len_iter: "py_len v = Inr n \<Longrightarrow> py_iter v = Inr xs \<Longrightarrow> n = length xs"
  by (cases v) auto

lemma recommend_core_Inr:
  assumes "recommend_core env ops data age income risk prof s = (Inr r, s')"
  shows "\<exists>t2 total recs n items formatted advice.
           py_len recs = Inr n \<and> py_iter recs = Inr items \<and>
           mapE (format_rec env) items = Inr formatted \<and>
           r = \<lparr>status = 200,
                body = PDict
                  [(''success'', PBool True),
                   (''timestamp'', PStr t2),
                   (''api_version'', PStr ''3.0''),
                   (''user_profile'', prof),
                   (''total_products_evaluated'', total),
                   (''recommendation_count'', PInt (int n)),
                   (''recommendations'', PList formatted),
                   (''personalized_advice'', advice)]\<rparr>"
  using assms unfolding recommend_core_def
  by (fastforce dest!: bindM_Inr simp: liftM_eq)

lemma recommend_products_200:
  assumes "recommend_products env ops req s = (r, s')" and "status r = 200"
  shows "\<exists>data age income risk prof. req = Inr data \<and>
           prepare data = Next (age, income, risk, prof) \<and>
           recommend_core env ops data age income risk prof s = (Inr r, s')"
  using assms unfolding recommend_products_def
  by (auto simp: internal_error_def dest: prepare_Return
      split: sum.splits step.splits prod.splits)

text \<open>
  Claim C8. In every successful response of POST /recommend (status 200), every item of
  \<open>recommendations\<close> has a \<open>match_percentage\<close> that is the text of its \<open>match_score\<close> followed
  by \<open>%\<close>, and \<open>recommendation_count\<close> is the number of items.
\<close>

theorem recommend_response_consistent:
  assumes "recommend_products env ops req s = (r, s')" and "status r = 200"
  shows "\<exists>b items. body r = PDict b \<and>
           map_of b ''success'' = Some (PBool True) \<and>
           map_of b ''recommendations'' = Some (PList items) \<and>
           map_of b ''recommendation_count'' = Some (PInt (int (length items))) \<and>
           (\<forall>it \<in> set items. \<exists>kvs sc. it = PDict kvs \<and>
              map_of kvs ''match_score'' = Some sc \<and>
              map_of kvs ''match_percentage'' = Some (PStr (py_str env sc @ ''%'')))"
proof -
  from recommend_products_200 [OF assms] obtain data age income risk prof where
    c: "recommend_core env ops data age income risk prof s = (Inr r, s')"
    by blast
  from recommend_core_Inr [OF c] obtain t2 total recs n items formatted advice where
    l: "py_len recs = Inr n" and i: "py_iter recs = Inr items" and
    m: "mapE (format_rec env) items = Inr formatted" and
    r: "r = \<lparr>status = 200,
                body = PDict
                  [(''success'', PBool True),
                   (''timestamp'', PStr t2),
                   (''api_version'', PStr ''3.0''),
                   (''user_profile'', prof),
                   (''total_products_evaluated'', total),
                   (''recommendation_count'', PInt (int n)),
                   (''recommendations'', PList formatted),
                   (''personalized_advice'', advice)]\<rparr>"
    by blast
  from mapE_Inr [OF m] have a: "list_all2 (\<lambda>x y. format_rec env x = Inr y) items formatted" .
  then have len: "length formatted = length items"
    by (simp add: list_all2_lengthD)
  with py_len_iter [OF l i] have n: "n = length formatted" by simp
  have each: "\<exists>kvs sc. it = PDict kvs \<and> map_of kvs ''match_score'' = Some sc \<and>
         map_of kvs ''match_percentage'' = Some (PStr (py_str env sc @ ''%''))"
    if "it \<in> set formatted" for it
  proof -
    from that a obtain x where "format_rec env x = Inr it"
      by (auto simp: list_all2_conv_all_nth in_set_conv_nth)
    from format_rec_Inr [OF this] show ?thesis by blast
  qed
  show ?thesis
    unfolding r n using each by simp
qed
theorem recommend_response_consistent_witness:
  "\<exists>r s'. recommend_products test_env
       (fixed_recommender
          (PDict [(''recommendations'',
                   PList [PDict [(''product_id'', PStr ''P1''), (''match_score'', PInt 85)]]),
                  (''total_products_evaluated'', PInt 3)])
          (PDict []))
       (Inr (PDict [(''age'', PInt 35), (''annual_income'', PFloat (Fin 25)),
                    (''risk_tolerance'', PStr risk_mid)]))
       \<lparr>recommender = (), calls = [], ticks = 0\<rparr> = (r, s')
     \<and> status r = 200
     \<and> (\<exists>b kvs. body r = PDict b
          \<and> map_of b ''recommendation_count'' = Some (PInt 1)
          \<and> map_of b ''recommendations'' = Some (PList [PDict kvs])
          \<and> map_of kvs ''match_score'' = Some (PInt 85)
          \<and> map_of kvs ''match_percentage'' = Some (PStr ''85%''))"
proof -
  let ?run = "recommend_products test_env
       (fixed_recommender
          (PDict [(''recommendations'',
                   PList [PDict [(''product_id'', PStr ''P1''), (''match_score'', PInt 85)]]),
                  (''total_products_evaluated'', PInt 3)])
          (PDict []))
       (Inr (PDict [(''age'', PInt 35), (''annual_income'', PFloat (Fin 25)),
                    (''risk_tolerance'', PStr risk_mid)]))
       \<lparr>recommender = (), calls = [], ticks = 0\<rparr>"
  have h25: "half_double 25 = Fin (25 / 2)"
    by (rule half_double_exact) simp
  have s85: "show_int 85 = ''85''"
    by code_simp
  have st: "status (fst ?run) = 200"
    by (simp add: recommend_products_def prepare_def validate_request_def required_fields_def
        bindS_def lift_def valid_risk_levels_def build_user_profile_def bindE_def
        copy_optional_def h25 recommend_core_def bindM_def liftM_def now_def
        call_add_user_profile_def call_get_recommendations_def
        call_get_personalized_advice_def fixed_recommender_def dget_def)
  have c: "\<exists>b kvs. body (fst ?run) = PDict b
          \<and> map_of b ''recommendation_count'' = Some (PInt 1)
          \<and> map_of b ''recommendations'' = Some (PList [PDict kvs])
          \<and> map_of kvs ''match_score'' = Some (PInt 85)
          \<and> map_of kvs ''match_percentage'' = Some (PStr ''85%'')"
    by (simp add: recommend_products_def prepare_def validate_request_def required_fields_def
        bindS_def lift_def valid_risk_levels_def build_user_profile_def bindE_def
        copy_optional_def h25 recommend_core_def bindM_def liftM_def now_def
        call_add_user_profile_def call_get_recommendations_def
        call_get_personalized_advice_def fixed_recommender_def dget_def s85)
  have run: "?run = (fst ?run, snd ?run)" by simp
  note t = recommend_response_consistent [OF run st]
  from t st c show ?thesis
    by (intro exI [of _ "fst ?run"] exI [of _ "snd ?run"] conjI) (simp_all only: prod.collapse)
qed

section \<open>GET /search\<close>




section \<open>GET /product/<product_id>\<close>

lemma find_None_iff_ids: "find (\<lambda>p. product_id p = pid) cat = None \<longleftrightarrow> pid \<notin> product_id ` set cat"
  by (auto simp: find_None_iff)

text \<open>
  Claim C5. With the catalog lookup of the specification behind it, the handler answers
  404 with \<open>success = false\<close> when no product of the catalog has the id, and 200 with
  \<open>success = true\<close> and the product when one has; it answers in both cases.
\<close>

theorem product_detail_lookup:
  "(pid \<notin> product_id ` set (catalog_of a) \<longrightarrow>
      get_product_detail env spec_analyzer_ops (Some a) pid
        = \<lparr>status = 404,
           body = PDict [(''success'', PBool False),
                         (''error'', PStr (msg_product_not_found @ pid))]\<rparr>)
   \<and> (pid \<in> product_id ` set (catalog_of a) \<longrightarrow>
      (\<exists>p \<in> set (catalog_of a). product_id p = pid \<and>
         get_product_detail env spec_analyzer_ops (Some a) pid
           = \<lparr>status = 200,
              body = PDict [(''success'', PBool True),
                            (''product'', PDict (product_fields p))]\<rparr>))"
proof (cases "find (\<lambda>p. product_id p = pid) (catalog_of a)")
  case None
  then have "pid \<notin> product_id ` set (catalog_of a)"
    by (simp add: find_None_iff_ids)
  with None show ?thesis
    by (simp add: get_product_detail_def spec_analyzer_ops_def
        spec_get_product_details_def error_response_def)
next
  case (Some p)
  then have "p \<in> set (catalog_of a)" "product_id p = pid"
    by (auto simp: find_Some_iff in_set_conv_nth)
  moreover have "pid \<in> product_id ` set (catalog_of a)"
    using calculation by auto
  ultimately show ?thesis
    using Some
    by (auto simp: get_product_detail_def spec_analyzer_ops_def
        spec_get_product_details_def product_fields_def)
qed

theorem product_detail_lookup_witness:
  "''P001'' \<in> product_id ` set (catalog_of sample_store)
   \<and> get_product_detail test_env spec_analyzer_ops (Some sample_store) ''P001''
       = \<lparr>status = 200,
          body = PDict [(''success'', PBool True),
                        (''product'', PDict (product_fields sample_product))]\<rparr>
   \<and> ''P999'' \<notin> product_id ` set (catalog_of sample_store)
   \<and> get_product_detail test_env spec_analyzer_ops (Some sample_store) ''P999''
       = \<lparr>status = 404,
          body = PDict [(''success'', PBool False),
                        (''error'', PStr (msg_product_not_found @ ''P999''))]\<rparr>"
proof -
  have c: "catalog_of sample_store = [sample_product]"
    by (simp add: catalog_of_def sample_store_def)
  have i: "product_id sample_product = ''P001''"
    by (simp add: sample_product_def)
  show ?thesis
    using product_detail_lookup [of "''P001''" sample_store test_env]
      product_detail_lookup [of "''P999''" sample_store test_env]
    by (simp add: c i)
qed

section \<open>initialize_system\<close>

text \<open>
  What lines 38 to 43 do, for every analyzer class: \<^verbatim>\<open>create_demo_data\<close> is called
  exactly when the constructor left no dataframe, and \<^verbatim>\<open>process_data\<close> exactly when
  there is no processed dataframe after that. What the two methods leave behind is
  theirs to say.
\<close>

lemma initialize_system_guards:
  "initialize_system cls a0 =
     (if df cls a0 = None then
        bindE (create_demo_data cls a0) (\<lambda>a1.
          bindE (if processed_df cls a1 = None then process_data cls a1 else Inr a1) (\<lambda>a2.
          bindE (new_recommender cls a2) (\<lambda>r. Inr (a2, r))))
      else
        bindE (if processed_df cls a0 = None then process_data cls a0 else Inr a0) (\<lambda>a2.
        bindE (new_recommender cls a2) (\<lambda>r. Inr (a2, r))))"
  by (simp add: initialize_system_def bindE_def)

section \<open>The age gate\<close>

lemma score_all_mem:
  "(p, sc) \<in> set (score_all fac prof ps) \<Longrightarrow> p \<in> set ps \<and> match_score fac prof p = Some sc"
  by (auto simp: score_all_def List.map_filter_def)

lemma match_score_Some:
  "match_score fac prof p = Some sc \<Longrightarrow> \<exists>a. profile_age prof = Some a \<and> age_eligible a p"
  by (auto simp: match_score_def split: option.splits if_splits)

lemma set_rank: "set (rank xs) = set xs"
  by (simp add: rank_def)

text \<open>
  Claim C4. Whatever the credits of the risk, affordability, geography and horizon
  factors are, every product the recommender of the specification returns has the
  profile's age inside its age range: a product whose \<open>age_range\<close> does not contain the
  age is never recommended.
\<close>

theorem age_gate:
  assumes "recommend fac cat prof top_n fc = Inr (recs, evaluated)" and "(p, sc) \<in> set recs"
  shows "p \<in> set cat \<and> (\<exists>a. profile_age prof = Some a \<and> min_age p \<le> a \<and> a \<le> max_age p)"
proof -
  from assms(1) have "recs = take (nat top_n) (rank (score_all fac prof (filter (matches_filter fc) cat)))"
    by (auto simp: recommend_def split: if_splits)
  with assms(2) have "(p, sc) \<in> set (rank (score_all fac prof (filter (matches_filter fc) cat)))"
    by (auto dest: in_set_takeD)
  then have "(p, sc) \<in> set (score_all fac prof (filter (matches_filter fc) cat))"
    by (simp only: set_rank)
  from score_all_mem [OF this] have "p \<in> set cat" "match_score fac prof p = Some sc"
    by auto
  with match_score_Some [of fac prof p sc] show ?thesis
    by (auto simp: age_eligible_def)
qed

theorem age_gate_witness:
  "recommend no_credit [sample_product, senior_product] (PDict [(''age'', PInt 35)]) 5 PNone
     = Inr ([(sample_product, 25)], 2)
   \<and> profile_age (PDict [(''age'', PInt 35)]) = Some 35
   \<and> min_age sample_product \<le> 35 \<and> 35 \<le> max_age sample_product
   \<and> \<not> (min_age senior_product \<le> 35)"
proof -
  have r: "recommend no_credit [sample_product, senior_product] (PDict [(''age'', PInt 35)]) 5 PNone
     = Inr ([(sample_product, 25)], 2)"
    by (simp add: recommend_def matches_filter_def score_all_def List.map_filter_def
        match_score_def profile_age_def age_eligible_def no_credit_def clamp_round_def
        rank_def sample_product_def senior_product_def)
  from age_gate [OF r, of sample_product 25] r show ?thesis
    by (simp add: profile_age_def sample_product_def senior_product_def)
qed

section \<open>POST /recommend: top_n\<close>

lemma recommend_products_prepared:
  assumes "prepare data = Next (age, income, risk, prof)"
  shows "recommend_products env ops (Inr data) s =
           (case recommend_core env ops data age income risk prof s of
              (Inl e, s') \<Rightarrow> (internal_error env e, s')
            | (Inr r, s') \<Rightarrow> (r, s'))"
  by (simp add: recommend_products_def assms)

text \<open>
  Once a request has passed the checks of lines 150 to 190, the handler has no 400 left to
  give: whatever the recommender does, the response is the 200 of line 269 or the 500 of
  the \<^verbatim>\<open>except\<close> clause.
\<close>

lemma accepted_request_status:
  assumes "prepare data = Next (age, income, risk, prof)"
  shows "status (fst (recommend_products env ops (Inr data) s)) = 200 \<or>
         status (fst (recommend_products env ops (Inr data) s)) = 500"
proof (cases "recommend_core env ops data age income risk prof s")
  case (Pair res s')
  show ?thesis
  proof (cases res)
    case (Inl e)
    with Pair show ?thesis
      by (simp add: recommend_products_prepared [OF assms] internal_error_def)
  next
    case (Inr r)
    with Pair recommend_core_Inr [of env ops data age income risk prof s r s'] show ?thesis
      by (auto simp: recommend_products_prepared [OF assms])
  qed
qed

lemma prepare_negative_top_n:
  "prepare negative_top_n_request
     = Next (PInt 35, PFloat (Fin 25), PStr risk_mid,
         PDict (base_profile 35 (Fin 25) (PStr risk_mid) (PStr urban_employee) (PInt 60)
                  (PFloat (Fin (25 / 2))) (PStr nationwide)))"
proof -
  have h25: "half_double 25 = Fin (25 / 2)"
    by (rule half_double_exact) simp
  show ?thesis
    by (simp add: negative_top_n_request_def prepare_def validate_request_def
        required_fields_def bindS_def lift_def valid_risk_levels_def build_user_profile_def
        bindE_def copy_optional_def base_profile_def h25)
qed

text \<open>
  Claim C3. The recommend operation truncates to \<open>top_n\<close> (5 when omitted), answers an
  empty list for 0, and rejects a negative \<open>top_n\<close> as invalid input signalled to the
  caller.

  The handler checks \<open>age\<close>, \<open>annual_income\<close> and \<open>risk_tolerance\<close> (lines 167 to 190, each
  with a 400) and does not check \<open>top_n\<close>: line 220 reads it and line 223 passes it on. A
  request with \<open>top_n = -1\<close> passes the checks; the handler stores its profile with
  \<^verbatim>\<open>add_user_profile\<close>, for every recommender, and answers 200 or 500, never the 400
  of invalid input; a recommender that does not object is asked for \<open>-1\<close> recommendations.
\<close>

theorem negative_top_n_not_rejected:
  "prepare negative_top_n_request
     = Next (PInt 35, PFloat (Fin 25), PStr risk_mid,
         PDict (base_profile 35 (Fin 25) (PStr risk_mid) (PStr urban_employee) (PInt 60)
                  (PFloat (Fin (25 / 2))) (PStr nationwide)))
   \<and> status (fst (recommend_products env ops (Inr negative_top_n_request) s)) \<noteq> 400
   \<and> (\<exists>cs. calls (snd (recommend_products env ops (Inr negative_top_n_request) s))
         = calls s @
           AddUserProfile
             (make_user_id env (clock env (ticks s)) (PInt 35) (PFloat (Fin 25)) (PStr risk_mid))
             (PDict (base_profile 35 (Fin 25) (PStr risk_mid) (PStr urban_employee) (PInt 60)
                  (PFloat (Fin (25 / 2))) (PStr nationwide))) # cs)
   \<and> (\<exists>cs. calls (snd (recommend_products env (fixed_recommender recs advice)
                         (Inr negative_top_n_request) t))
         = calls t @
           [AddUserProfile
             (make_user_id env (clock env (ticks t)) (PInt 35) (PFloat (Fin 25)) (PStr risk_mid))
             (PDict (base_profile 35 (Fin 25) (PStr risk_mid) (PStr urban_employee) (PInt 60)
                  (PFloat (Fin (25 / 2))) (PStr nationwide))),
            GetRecommendations
             (make_user_id env (clock env (ticks t)) (PInt 35) (PFloat (Fin 25)) (PStr risk_mid))
             (PInt (- 1)) PNone] @ cs)"
proof -
  note p = prepare_negative_top_n
  have 1: "status (fst (recommend_products env ops (Inr negative_top_n_request) s)) \<noteq> 400"
    using accepted_request_status [OF p, of env ops s] by auto
  note 2 = accepted_request_reaches_core [OF p, of env ops s]
  have 3: "\<exists>cs. calls (snd (recommend_products env (fixed_recommender recs advice)
                         (Inr negative_top_n_request) t))
         = calls t @
           [AddUserProfile
             (make_user_id env (clock env (ticks t)) (PInt 35) (PFloat (Fin 25)) (PStr risk_mid))
             (PDict (base_profile 35 (Fin 25) (PStr risk_mid) (PStr urban_employee) (PInt 60)
                  (PFloat (Fin (25 / 2))) (PStr nationwide))),
            GetRecommendations
             (make_user_id env (clock env (ticks t)) (PInt 35) (PFloat (Fin 25)) (PStr risk_mid))
             (PInt (- 1)) PNone] @ cs"
  proof -
    have g: "py_get negative_top_n_request ''top_n'' (PInt 5) = Inr (PInt (- 1))"
      "py_get negative_top_n_request ''filter_criteria'' PNone = Inr PNone"
      by (simp_all add: negative_top_n_request_def dget_def)
    show ?thesis
      by (simp add: recommend_products_prepared [OF p] recommend_core_def bindM_def liftM_def
          now_def call_add_user_profile_def call_get_recommendations_def
          call_get_personalized_advice_def fixed_recommender_def g
          split: prod.splits sum.splits)
  qed
  from p 1 2 3 show ?thesis by simp
qed

section \<open>POST /recommend: the user id\<close>

lemma prepare_request_from:
  "prepare (request_from city)
     = Next (PInt 35, PFloat (Fin 25), PStr risk_mid, profile_from city)"
proof -
  have h25: "half_double 25 = Fin (25 / 2)"
    by (rule half_double_exact) simp
  show ?thesis
    by (simp add: request_from_def profile_from_def prepare_def validate_request_def
        required_fields_def bindS_def lift_def valid_risk_levels_def build_user_profile_def
        bindE_def copy_optional_def base_profile_def h25)
qed

text \<open>
  The key of a submission (line 213) is a function of the clock reading and the submitted
  age, income and risk tolerance, and is checked against nothing. For every clock, digest
  and recommender: when the second of two accepted submissions with the same three
  fields reads from the clock what the first read, \<^verbatim>\<open>add_user_profile\<close> is called with
  the key of the first.
\<close>

lemma same_reading_same_key:
  assumes p1: "prepare d1 = Next (age, income, risk, prof1)"
    and p2: "prepare d2 = Next (age, income, risk, prof2)"
    and c: "clock env (ticks (snd (recommend_products env ops (Inr d1) s))) = clock env (ticks s)"
  shows "\<exists>cs1 cs2.
      calls (snd (recommend_products env ops (Inr d1) s))
        = calls s @ AddUserProfile (make_user_id env (clock env (ticks s)) age income risk) prof1 # cs1
    \<and> calls (snd (recommend_products env ops (Inr d2) (snd (recommend_products env ops (Inr d1) s))))
        = calls (snd (recommend_products env ops (Inr d1) s))
          @ AddUserProfile (make_user_id env (clock env (ticks s)) age income risk) prof2 # cs2"
  using accepted_request_reaches_core [OF p1, of env ops s]
    accepted_request_reaches_core [OF p2, of env ops "snd (recommend_products env ops (Inr d1) s)"]
  by (simp add: c)

text \<open>
  Claim C9. Every submission is stored under a freshly generated key, distinct from all
  keys used before, so a stored profile is never replaced by a later submission.

  The key can repeat. Two submissions that differ in the location only, the second
  reading from the clock what the first read (\<open>test_env\<close>): for every recommender and
  every state, \<^verbatim>\<open>add_user_profile\<close> is called for both with the same key and with
  two different profiles.
\<close>

theorem user_id_repeats:
  "(\<exists>cs1 cs2.
      calls (snd (recommend_products test_env ops (Inr (request_from ''Beijing'')) s))
        = calls s @
          AddUserProfile
            (make_user_id test_env (clock test_env 0) (PInt 35) (PFloat (Fin 25)) (PStr risk_mid))
            (profile_from ''Beijing'') # cs1
    \<and> calls (snd (recommend_products test_env ops (Inr (request_from ''Shanghai''))
                 (snd (recommend_products test_env ops (Inr (request_from ''Beijing'')) s))))
        = calls (snd (recommend_products test_env ops (Inr (request_from ''Beijing'')) s)) @
          AddUserProfile
            (make_user_id test_env (clock test_env 0) (PInt 35) (PFloat (Fin 25)) (PStr risk_mid))
            (profile_from ''Shanghai'') # cs2)
   \<and> profile_from ''Beijing'' \<noteq> profile_from ''Shanghai''"
proof -
  have c: "clock test_env n = clock test_env 0" for n
    by (simp add: test_env_def)
  have d: "profile_from ''Beijing'' \<noteq> profile_from ''Shanghai''"
    by (simp add: profile_from_def base_profile_def)
  from same_reading_same_key [where env = test_env and ops = ops and s = s,
      OF prepare_request_from [of "''Beijing''"] prepare_request_from [of "''Shanghai''"]]
  have "\<exists>cs1 cs2.
      calls (snd (recommend_products test_env ops (Inr (request_from ''Beijing'')) s))
        = calls s @
          AddUserProfile
            (make_user_id test_env (clock test_env (ticks s)) (PInt 35) (PFloat (Fin 25))
               (PStr risk_mid))
            (profile_from ''Beijing'') # cs1
    \<and> calls (snd (recommend_products test_env ops (Inr (request_from ''Shanghai''))
                 (snd (recommend_products test_env ops (Inr (request_from ''Beijing'')) s))))
        = calls (snd (recommend_products test_env ops (Inr (request_from ''Beijing'')) s)) @
          AddUserProfile
            (make_user_id test_env (clock test_env (ticks s)) (PInt 35) (PFloat (Fin 25))
               (PStr risk_mid))
            (profile_from ''Shanghai'') # cs2"
    by (simp add: c [of "ticks (snd (recommend_products test_env ops (Inr (request_from ''Beijing'')) s))"]
        c [of "ticks s"])
  then show ?thesis
    using d by (simp add: c [of "ticks s"])
qed

end
